theory Spec2Isabelle
  imports Complex_Main
begin

section \<open>Python values shared by the four scripts\<close>

text \<open>
  The repository is four Python scripts: \<^verbatim>\<open>compare_sst.py\<close>, \<^verbatim>\<open>check_tif.py\<close>,
  \<^verbatim>\<open>export_oisst.py\<close> and \<^verbatim>\<open>export_hycom_temp0.py\<close>. Python integers are modelled as
  \<^typ>\<open>int\<close>, Python floats as \<^typ>\<open>real\<close> (\<^verbatim>\<open>nan\<close> and the infinities are constructors of
  their own; where a script rounds a product to a double, the rounding is a parameter),
  strings as byte lists in UTF-8, and every exit or exception as the left summand of a
  sum type.
\<close>

datatype error =
    SystemExit string   \<comment> \<open>\<^verbatim>\<open>sys.exit(msg)\<close> / \<^verbatim>\<open>raise SystemExit(msg)\<close>: the message goes to stderr\<close>
  | IndexError          \<comment> \<open>an array index out of bounds\<close>
  | AttributeError      \<comment> \<open>a method called on \<^verbatim>\<open>None\<close>\<close>
  | ValueError          \<comment> \<open>\<^verbatim>\<open>int\<close> of a \<^verbatim>\<open>nan\<close>\<close>
  | OverflowError       \<comment> \<open>\<^verbatim>\<open>int\<close> of an infinity\<close>
  | Raised string       \<comment> \<open>any other exception, by its name, raised inside a library call\<close>



text \<open>
  A Python float: a number, \<^verbatim>\<open>nan\<close>, or an infinity. \<open>py_lt\<close> is \<^verbatim>\<open><\<close>: every comparison
  with \<^verbatim>\<open>nan\<close> is false. \<open>py_min a b\<close> and \<open>py_max a b\<close> are the builtins \<^verbatim>\<open>min(a, b)\<close> and
  \<^verbatim>\<open>max(a, b)\<close>: the first argument is kept unless the second is smaller (greater).
\<close>

datatype pyfloat = Float real | NaN | PosInf | NegInf

fun py_lt :: "pyfloat \<Rightarrow> pyfloat \<Rightarrow> bool" where
  "py_lt NaN y = False"
| "py_lt x NaN = False"
| "py_lt (Float a) (Float b) = (a < b)"
| "py_lt NegInf NegInf = False"
| "py_lt NegInf y = True"
| "py_lt x NegInf = False"
| "py_lt PosInf y = False"
| "py_lt x PosInf = True"

definition py_min :: "pyfloat \<Rightarrow> pyfloat \<Rightarrow> pyfloat" where
  "py_min a b = (if py_lt b a then b else a)"

definition py_max :: "pyfloat \<Rightarrow> pyfloat \<Rightarrow> pyfloat" where
  "py_max a b = (if py_lt a b then b else a)"


text \<open>\<^verbatim>\<open>str(i)\<close> for an integer, as an f-string prints it.\<close>

definition digit_char :: "nat \<Rightarrow> char" where
  "digit_char d = ''0123456789'' ! d"

function nat_str :: "nat \<Rightarrow> string" where
  "nat_str n = (if n < 10 then [digit_char n] else nat_str (n div 10) @ [digit_char (n mod 10)])"
  by pat_completeness auto
termination
  by (relation "measure id") auto

declare nat_str.simps [simp del]

definition py_str :: "int \<Rightarrow> string" where
  "py_str i = (if i < 0 then CHR ''-'' # nat_str (nat (- i)) else nat_str (nat i))"

text \<open>
  \<^verbatim>\<open>int(s)\<close> for a string; \<open>None\<close> is \<^verbatim>\<open>ValueError\<close>. On an ASCII string the surrounding
  whitespace (tab, line feed, vertical tab, form feed, carriage return, space) is
  stripped, one sign is allowed, then decimal digits, where single underscores may
  separate digits; a literal with more digits than the interpreter's limit
  (\<^verbatim>\<open>sys.get_int_max_str_digits()\<close>, 4300 unless configured, 0 for no limit) is refused.
  On a string with a non-ASCII character \<^verbatim>\<open>int\<close> follows the Unicode tables of
  the interpreter (other digits, other spaces): that part is a field of the interpreter
  record, so that nothing is assumed about it.
\<close>

record interp =
  int_unicode :: "string \<Rightarrow> int option"
  max_str_digits :: nat

definition is_ascii :: "char \<Rightarrow> bool" where
  "is_ascii c = ((of_char c :: nat) < 128)"

definition is_space :: "char \<Rightarrow> bool" where
  "is_space c = (c \<in> set [CHR 0x09, CHR 0x0A, CHR 0x0B, CHR 0x0C, CHR 0x0D, CHR 0x20])"

definition is_digit :: "char \<Rightarrow> bool" where
  "is_digit c = (c \<in> set ''0123456789'')"

definition digit_val :: "char \<Rightarrow> nat" where
  "digit_val c = of_char c - 48"

definition strip :: "string \<Rightarrow> string" where
  "strip s = rev (dropWhile is_space (rev (dropWhile is_space s)))"

fun int_digits :: "nat \<Rightarrow> bool \<Rightarrow> string \<Rightarrow> nat option" where
  \<comment> \<open>the flag says that the last character read was an underscore\<close>
  "int_digits acc us [] = (if us then None else Some acc)"
| "int_digits acc us (c # cs) =
     (if is_digit c then int_digits (10 * acc + digit_val c) False cs
      else if c = CHR ''_'' \<and> \<not> us then int_digits acc True cs
      else None)"

definition int_body :: "nat \<Rightarrow> string \<Rightarrow> nat option" where
  "int_body limit s =
     (if limit \<noteq> 0 \<and> limit < length (filter is_digit s) then None
      else
        (case s of
           [] \<Rightarrow> None
         | c # cs \<Rightarrow> if is_digit c then int_digits (digit_val c) False cs else None))"

definition ascii_int :: "nat \<Rightarrow> string \<Rightarrow> int option" where
  "ascii_int limit s =
     (case strip s of
        [] \<Rightarrow> None
      | c # cs \<Rightarrow>
          if c = CHR ''-'' then map_option (\<lambda>n. - int n) (int_body limit cs)
          else if c = CHR ''+'' then map_option int (int_body limit cs)
          else map_option int (int_body limit (c # cs)))"

definition py_int :: "interp \<Rightarrow> string \<Rightarrow> int option" where
  "py_int ip s =
     (if list_all is_ascii s then ascii_int (max_str_digits ip) s else int_unicode ip s)"



text \<open>\<^verbatim>\<open>int(x)\<close> for a float: truncation towards zero.\<close>

definition int_of_float :: "real \<Rightarrow> int" where
  "int_of_float x = (if 0 \<le> x then \<lfloor>x\<rfloor> else \<lceil>x\<rceil>)"

text \<open>Running one step after another: the first exception ends the run.\<close>

definition bind_err :: "error + 'a \<Rightarrow> ('a \<Rightarrow> error + 'b) \<Rightarrow> error + 'b" where
  "bind_err r f = (case r of Inl e \<Rightarrow> Inl e | Inr x \<Rightarrow> f x)"

text \<open>The two non-ASCII characters of the messages, in UTF-8.\<close>

definition cross_mark :: string where
  "cross_mark = [CHR 0xE2, CHR 0x9D, CHR 0x8C]"

definition en_dash :: string where
  "en_dash = [CHR 0xE2, CHR 0x80, CHR 0x93]"


section \<open>Rasters\<close>

text \<open>
  A band is a row-major list of rows. What \<^verbatim>\<open>rasterio.open(path)\<close> gives is a record of
  the dataset attributes the scripts read. \<^verbatim>\<open>ds.crs\<close> is \<^verbatim>\<open>None\<close> for a file that carries no
  reference system, and \<^verbatim>\<open>crs.to_epsg()\<close> is \<^verbatim>\<open>None\<close> when the system has no EPSG code.
  \<^verbatim>\<open>ds.index\<close> is the dataset's own method: it is a field of the record, so that nothing
  is assumed about it.
\<close>

type_synonym grid = "real list list"

type_synonym mask = "bool list list"

datatype crs = CRS (to_epsg: "int option")

record dataset =
  ds_crs :: "crs option"
  ds_height :: nat
  ds_width :: nat
  ds_index :: "real \<Rightarrow> real \<Rightarrow> int \<times> int"
  ds_band1 :: grid
  ds_nodata :: "real option"

text \<open>
  The file system: the dataset stored under a path, \<open>None\<close> where \<^verbatim>\<open>path.exists()\<close> is
  false.
\<close>

type_synonym filesystem = "string \<Rightarrow> dataset option"

text \<open>
  Modelled from the spec: \<^verbatim>\<open>ds.index(x, y)\<close> of a dataset whose geotransform has zero
  rotation terms, origin \<open>(ox, oy)\<close> and pixel size \<open>(pw, ph)\<close> (section 4.1: the column is
  \<open>floor((x - ox) / pw)\<close>, the row is \<open>floor((y - oy) / ph)\<close>). The method itself is
  rasterio's and is not in the repository.
\<close>

definition index_north_up :: "real \<Rightarrow> real \<Rightarrow> real \<Rightarrow> real \<Rightarrow> real \<Rightarrow> real \<Rightarrow> int \<times> int" where
  "index_north_up ox oy pw ph x y = (\<lfloor>(y - oy) / ph\<rfloor>, \<lfloor>(x - ox) / pw\<rfloor>)"




section \<open>compare\_sst.py\<close>

text \<open>\<^verbatim>\<open>make_default_fname\<close>: the tag is \<^verbatim>\<open>f"s{scale_m // 1000}k"\<close>.\<close>

definition scale_tag :: "int \<Rightarrow> string" where
  "scale_tag scale_m = ''s'' @ py_str (scale_m div 1000) @ ''k''"

definition make_default_fname :: "int \<Rightarrow> string" where
  "make_default_fname scale_m = ''oisst_20200315_'' @ scale_tag scale_m @ ''.tif''"


text \<open>
  \<^verbatim>\<open>np.isclose(a, b)\<close> with numpy's default tolerances:
  \<open>|a - b| \<le> atol + rtol * |b|\<close>, \<open>rtol = 1e-5\<close>, \<open>atol = 1e-8\<close>.
\<close>

definition np_isclose :: "real \<Rightarrow> real \<Rightarrow> bool" where
  "np_isclose a b = (\<bar>a - b\<bar> \<le> 1 / 10 ^ 8 + (1 / 10 ^ 5) * \<bar>b\<bar>)"

text \<open>
  One index of a numpy array along an axis of length \<open>n\<close>: an index in \<open>[-n, 0)\<close> counts
  from the end, an index outside \<open>[-n, n)\<close> raises \<^verbatim>\<open>IndexError\<close>.
\<close>

definition norm_index :: "nat \<Rightarrow> int \<Rightarrow> nat option" where
  "norm_index n i =
     (if 0 \<le> i \<and> i < int n then Some (nat i)
      else if - int n \<le> i \<and> i < 0 then Some (nat (i + int n))
      else None)"

text \<open>\<^verbatim>\<open>data[row, col]\<close> for an array of shape \<open>(h, w)\<close>.\<close>

definition getitem2 :: "nat \<Rightarrow> nat \<Rightarrow> grid \<Rightarrow> int \<Rightarrow> int \<Rightarrow> error + real" where
  "getitem2 h w data row col =
     (case norm_index h row of
        None \<Rightarrow> Inl IndexError
      | Some r \<Rightarrow>
          (case norm_index w col of
             None \<Rightarrow> Inl IndexError
           | Some c \<Rightarrow> Inr (data ! r ! c)))"

text \<open>The nodata test of \<^verbatim>\<open>tiff_sst_value\<close>: \<^verbatim>\<open>nodata is not None and np.isclose(val, nodata)\<close>.\<close>

definition sample_is_nodata :: "real \<Rightarrow> real option \<Rightarrow> bool" where
  "sample_is_nodata val nodata =
     (case nodata of None \<Rightarrow> False | Some nd \<Rightarrow> np_isclose val nd)"

definition tiff_not_found :: "string \<Rightarrow> string" where
  "tiff_not_found path = cross_mark @ ''  TIFF not found: '' @ path"

definition crs_not_4326 :: string where
  "crs_not_4326 =
     cross_mark @ ''  TIFF CRS is not EPSG:4326 '' @ en_dash @ '' re-project or adjust code.''"

definition tiff_sst_value :: "filesystem \<Rightarrow> string \<Rightarrow> real \<Rightarrow> real \<Rightarrow> error + pyfloat" where
  "tiff_sst_value fs path lon lat =
     (case fs path of
        None \<Rightarrow> Inl (SystemExit (tiff_not_found path))
      | Some ds \<Rightarrow>
          (case ds_crs ds of
             None \<Rightarrow> Inl AttributeError
           | Some c \<Rightarrow>
               if to_epsg c \<noteq> Some 4326 then Inl (SystemExit crs_not_4326)
               else
                 (case ds_index ds lon lat of
                    (row, col) \<Rightarrow>
                      (case getitem2 (ds_height ds) (ds_width ds) (ds_band1 ds) row col of
                         Inl e \<Rightarrow> Inl e
                       | Inr val \<Rightarrow>
                           if sample_is_nodata val (ds_nodata ds) then Inr NaN
                           else Inr (Float val)))))"







section \<open>check\_tif.py\<close>



text \<open>
  The thumbnail scale: \<^verbatim>\<open>max(min(args.thumb_scale, 1.0), 0.01)\<close>. The argument is any
  float that \<^verbatim>\<open>float\<close> parses, \<^verbatim>\<open>nan\<close> and the infinities included.
\<close>

definition thumb_scale :: "pyfloat \<Rightarrow> pyfloat" where
  "thumb_scale s = py_max (py_min s (Float 1)) (Float (1 / 100))"

text \<open>
  One dimension of the thumbnail, \<^verbatim>\<open>int(n * scale)\<close>: the product is rounded to a double and
  truncated; \<^verbatim>\<open>int\<close> raises \<^verbatim>\<open>ValueError\<close> on \<^verbatim>\<open>nan\<close> and \<^verbatim>\<open>OverflowError\<close> on an infinity
  (\<^verbatim>\<open>0 * inf\<close> is \<^verbatim>\<open>nan\<close>). \<open>fl\<close> is the rounding of a real to the nearest double; it is a
  parameter, and what is proved uses only that it is monotone and leaves doubles fixed.
  (The dimension of a raster is far below \<open>2\<^sup>5\<^sup>3\<close> and is a double itself.)
\<close>

definition thumb_dim :: "(real \<Rightarrow> real) \<Rightarrow> nat \<Rightarrow> pyfloat \<Rightarrow> error + int" where
  "thumb_dim fl n scale =
     (case scale of
        Float s \<Rightarrow> Inr (int_of_float (fl (real n * s)))
      | NaN \<Rightarrow> Inl ValueError
      | PosInf \<Rightarrow> if n = 0 then Inl ValueError else Inl OverflowError
      | NegInf \<Rightarrow> if n = 0 then Inl ValueError else Inl OverflowError)"

text \<open>
  The thumbnail shape: \<^verbatim>\<open>new_h = int(ds.height * scale)\<close>, then
  \<^verbatim>\<open>new_w = int(ds.width * scale)\<close>, for the requested scale \<open>s\<close>.
\<close>

definition thumb_shape :: "(real \<Rightarrow> real) \<Rightarrow> nat \<Rightarrow> nat \<Rightarrow> pyfloat \<Rightarrow> error + int \<times> int" where
  "thumb_shape fl height width s =
     (let scale = thumb_scale s
      in bind_err (thumb_dim fl height scale) (\<lambda>new_h.
           bind_err (thumb_dim fl width scale) (\<lambda>new_w. Inr (new_h, new_w))))"

text \<open>
  A masked array: \<open>None\<close> is a masked cell. \<^verbatim>\<open>np.ma.masked_equal(a, v)\<close> masks the cells
  that are equal to \<open>v\<close>. The thumbnail is masked only when the dataset has a nodata value:
  \<^verbatim>\<open>np.ma.masked_equal(thumb, ds.nodata) if ds.nodata is not None else thumb\<close>.
\<close>

type_synonym marray = "real option list list"

definition masked_equal :: "grid \<Rightarrow> real \<Rightarrow> marray" where
  "masked_equal a v = map (map (\<lambda>x. if x = v then None else Some x)) a"

definition mask_thumb :: "grid \<Rightarrow> real option \<Rightarrow> marray" where
  "mask_thumb thumb nodata =
     (case nodata of Some nd \<Rightarrow> masked_equal thumb nd | None \<Rightarrow> map (map Some) thumb)"

text \<open>Whether the thumbnail path masks a cell of value \<open>x\<close>.\<close>

definition thumb_is_nodata :: "real \<Rightarrow> real option \<Rightarrow> bool" where
  "thumb_is_nodata x nodata = (mask_thumb [[x]] nodata = [[None]])"


subsection \<open>The statistics reduction\<close>

text \<open>
  Modelled from the spec: the script computes its statistics with \<^verbatim>\<open>np.nanmin\<close>,
  \<^verbatim>\<open>np.nanmax\<close>, \<^verbatim>\<open>np.nanmean\<close> and \<^verbatim>\<open>np.nanstd\<close> on the masked band; the reduction itself
  is numpy's and is not in the repository. The definitions follow section 4.2 and
  section 4.3 of the spec: \<open>is_nodata\<close> is true iff a sentinel is present and
  \<open>|value - sentinel| \<le> tolerance\<close>; \<open>reduce\<close> is a single pass that accumulates count,
  sum, sum of squares, running minimum and running maximum over the valid cells, the
  mean is \<open>sum / count\<close>, the standard deviation is \<open>sqrt (sumSq / count - mean\<^sup>2)\<close> with
  the radicand clamped to zero, and zero valid cells give the undefined statistics (every
  field the undefined number).
\<close>

definition is_nodata :: "real \<Rightarrow> real option \<Rightarrow> real \<Rightarrow> bool" where
  "is_nodata v sentinel tolerance =
     (case sentinel of None \<Rightarrow> False | Some s \<Rightarrow> \<bar>v - s\<bar> \<le> tolerance)"

definition nodata_mask :: "grid \<Rightarrow> real option \<Rightarrow> real \<Rightarrow> mask" where
  "nodata_mask g sentinel tolerance = map (map (\<lambda>v. is_nodata v sentinel tolerance)) g"

record statistics =
  st_min :: pyfloat
  st_max :: pyfloat
  st_mean :: pyfloat
  st_std :: pyfloat

definition undefined_statistics :: statistics where
  "undefined_statistics = \<lparr>st_min = NaN, st_max = NaN, st_mean = NaN, st_std = NaN\<rparr>"

record accum =
  acc_count :: nat
  acc_sum :: real
  acc_sumsq :: real
  acc_min :: real
  acc_max :: real

definition acc_empty :: accum where
  "acc_empty = \<lparr>acc_count = 0, acc_sum = 0, acc_sumsq = 0, acc_min = 0, acc_max = 0\<rparr>"

text \<open>One step of the pass: a cell is a value and its mask bit (\<open>True\<close> is nodata).\<close>

definition accumulate :: "accum \<Rightarrow> real \<times> bool \<Rightarrow> accum" where
  "accumulate a cell =
     (case cell of
        (v, nodata) \<Rightarrow>
          if nodata then a
          else \<lparr>acc_count = Suc (acc_count a),
                acc_sum = acc_sum a + v,
                acc_sumsq = acc_sumsq a + v * v,
                acc_min = (if acc_count a = 0 then v else min (acc_min a) v),
                acc_max = (if acc_count a = 0 then v else max (acc_max a) v)\<rparr>)"

definition cells :: "grid \<Rightarrow> mask \<Rightarrow> (real \<times> bool) list" where
  "cells g m = concat (map (\<lambda>(row, mrow). zip row mrow) (zip g m))"

definition finish :: "accum \<Rightarrow> statistics" where
  "finish a =
     (if acc_count a = 0 then undefined_statistics
      else
        (let mean = acc_sum a / real (acc_count a);
             radicand = acc_sumsq a / real (acc_count a) - mean * mean
         in \<lparr>st_min = Float (acc_min a),
              st_max = Float (acc_max a),
              st_mean = Float mean,
              st_std = Float (sqrt (max radicand 0))\<rparr>))"

definition reduce :: "grid \<Rightarrow> mask \<Rightarrow> statistics" where
  "reduce g m = finish (foldl accumulate acc_empty (cells g m))"


subsection \<open>The block-average resampler\<close>

text \<open>
  Modelled from the spec: the script asks rasterio for the averaged band,
  \<^verbatim>\<open>ds.read(1, out_shape=(1, new_h, new_w), resampling=Resampling.average)\<close>; the averaging
  itself is the library's and is not in the repository. The definitions follow
  section 4.4 of the spec: output index \<open>i\<close> of \<open>n_out\<close> is mapped linearly to a source
  range, the ranges partition the source without gaps or overlaps and the last one
  absorbs the remainder; an output cell is the arithmetic mean of the valid cells of its
  block, and it is marked nodata (\<open>None\<close>) when the block has no valid cell. The scale
  is clamped into \<open>[0.01, 1]\<close> and the output has \<open>floor (height * scale)\<close> rows and
  \<open>floor (width * scale)\<close> columns.
\<close>

definition clamp_scale :: "real \<Rightarrow> real" where
  "clamp_scale s = max (min s 1) (1 / 100)"

definition resample_shape :: "nat \<Rightarrow> nat \<Rightarrow> real \<Rightarrow> int \<times> int" where
  "resample_shape height width s =
     (\<lfloor>real height * clamp_scale s\<rfloor>, \<lfloor>real width * clamp_scale s\<rfloor>)"

definition grid_height :: "'a list list \<Rightarrow> nat" where
  "grid_height g = length g"

definition grid_width :: "'a list list \<Rightarrow> nat" where
  "grid_width g = (case g of [] \<Rightarrow> 0 | row # _ \<Rightarrow> length row)"

definition block_bounds :: "nat \<Rightarrow> nat \<Rightarrow> nat \<Rightarrow> nat \<times> nat" where
  "block_bounds n_src n_out i =
     (let b = n_src div n_out
      in (i * b, if Suc i = n_out then n_src else Suc i * b))"

definition block_cells :: "grid \<Rightarrow> mask \<Rightarrow> nat \<times> nat \<Rightarrow> nat \<times> nat \<Rightarrow> (real \<times> bool) list" where
  "block_cells g m rows cols =
     concat (map (\<lambda>r. map (\<lambda>c. (g ! r ! c, m ! r ! c)) [fst cols..<snd cols])
                 [fst rows..<snd rows])"

definition block_mean :: "(real \<times> bool) list \<Rightarrow> real option" where
  "block_mean cs =
     (let valid = map fst (filter (\<lambda>cell. \<not> snd cell) cs)
      in if valid = [] then None else Some (sum_list valid / real (length valid)))"

definition resample_to :: "grid \<Rightarrow> mask \<Rightarrow> nat \<Rightarrow> nat \<Rightarrow> marray" where
  "resample_to g m new_h new_w =
     map (\<lambda>i. map (\<lambda>j. block_mean (block_cells g m (block_bounds (grid_height g) new_h i)
                                                    (block_bounds (grid_width g) new_w j)))
                   [0..<new_w])
         [0..<new_h]"

definition resample :: "grid \<Rightarrow> mask \<Rightarrow> real \<Rightarrow> marray" where
  "resample g m s =
     (case resample_shape (grid_height g) (grid_width g) s of
        (new_h, new_w) \<Rightarrow> resample_to g m (nat new_h) (nat new_w))"


subsection \<open>main\<close>






section \<open>export\_oisst.py and export\_hycom\_temp0.py\<close>

text \<open>
  What \<^verbatim>\<open>main(scale_m)\<close> queues: the arguments of \<^verbatim>\<open>ee.batch.Export.image.toDrive\<close>.
  \<open>export_oisst_run\<close> and \<open>export_hycom_run\<close> are \<^verbatim>\<open>main\<close> itself: \<open>start\<close> is Earth Engine
  (initialise, queue the task, start it), which gives the task id or raises.
\<close>

record export_task =
  task_description :: string
  task_folder :: string
  task_fileNamePrefix :: string
  task_scale :: int
  task_crs :: string
  task_maxPixels :: int

definition export_oisst_name :: "int \<Rightarrow> string" where
  "export_oisst_name scale_m = ''oisst_20200315_'' @ (''s'' @ py_str (scale_m div 1000) @ ''k'')"

definition export_oisst_main :: "int \<Rightarrow> export_task" where
  "export_oisst_main scale_m =
     \<lparr>task_description = export_oisst_name scale_m,
      task_folder = ''EE_exports'',
      task_fileNamePrefix = export_oisst_name scale_m,
      task_scale = scale_m,
      task_crs = ''EPSG:4326'',
      task_maxPixels = 1000000000\<rparr>"

definition export_hycom_name :: "int \<Rightarrow> string" where
  "export_hycom_name scale_m =
     ''hycom_temp0_20200315_'' @ (''s'' @ py_str (scale_m div 1000) @ ''k'')"

definition export_hycom_main :: "int \<Rightarrow> export_task" where
  "export_hycom_main scale_m =
     \<lparr>task_description = export_hycom_name scale_m,
      task_folder = ''EE_exports'',
      task_fileNamePrefix = export_hycom_name scale_m,
      task_scale = scale_m,
      task_crs = ''EPSG:4326'',
      task_maxPixels = 1000000000\<rparr>"


definition export_hycom_run :: "(export_task \<Rightarrow> error + string) \<Rightarrow> int \<Rightarrow> error + string" where
  "export_hycom_run start scale_m = start (export_hycom_main scale_m)"


definition hycom_usage :: string where
  "hycom_usage = ''Usage: python export_hycom_temp0.py SCALE (metres)''"

definition scale_must_be_positive :: string where
  "scale_must_be_positive = ''SCALE must be a positive integer (metres per pixel).''"

text \<open>
  The \<^verbatim>\<open>__main__\<close> block, shared by the two scripts up to the usage line and the main
  function: \<open>argv\<close> is \<^verbatim>\<open>sys.argv\<close>. The \<^verbatim>\<open>ValueError\<close> of \<^verbatim>\<open>int\<close> and the one raised for
  \<^verbatim>\<open>scale <= 0\<close> reach the same handler; \<^verbatim>\<open>main\<close> runs outside it.
\<close>

definition export_cli ::
  "interp \<Rightarrow> string \<Rightarrow> (int \<Rightarrow> error + 'a) \<Rightarrow> string list \<Rightarrow> error + 'a" where
  "export_cli ip usage main argv =
     (if length argv \<noteq> 2 then Inl (SystemExit usage)
      else
        (case py_int ip (argv ! 1) of
           None \<Rightarrow> Inl (SystemExit scale_must_be_positive)
         | Some scale \<Rightarrow>
             if scale \<le> 0 then Inl (SystemExit scale_must_be_positive)
             else main scale))"


definition export_hycom_cli ::
  "interp \<Rightarrow> (export_task \<Rightarrow> error + string) \<Rightarrow> string list \<Rightarrow> error + string" where
  "export_hycom_cli ip start argv = export_cli ip hycom_usage (export_hycom_run start) argv"


section \<open>The example raster of the spec\<close>

text \<open>
  Section 8 of the spec works on a 4 x 4 grid of the values 1 to 16 in row-major order,
  with nodata sentinel -9999, geotransform origin (0, 0) and pixel size (1, -1); and on
  the same grid with the sentinel in row 0, column 0.
\<close>

definition grid_1_16 :: grid where
  "grid_1_16 = [[1, 2, 3, 4], [5, 6, 7, 8], [9, 10, 11, 12], [13, 14, 15, 16]]"

definition grid_sentinel :: grid where
  "grid_sentinel = [[- 9999, 2, 3, 4], [5, 6, 7, 8], [9, 10, 11, 12], [13, 14, 15, 16]]"

definition raster_1_16 :: dataset where
  "raster_1_16 =
     \<lparr>ds_crs = Some (CRS (Some 4326)), ds_height = 4, ds_width = 4,
      ds_index = index_north_up 0 0 1 (- 1), ds_band1 = grid_1_16,
      ds_nodata = Some (- 9999)\<rparr>"

definition fs_1_16 :: filesystem where
  "fs_1_16 = (\<lambda>p. if p = ''oisst_20200315_s20k.tif'' then Some raster_1_16 else None)"




section \<open>Properties\<close>

subsection \<open>Printing and file names\<close>

lemma nat_str_digit: "n < 10 \<Longrightarrow> nat_str n = [digit_char n]"
  by (subst nat_str.simps) simp


lemma py_str_0: "py_str 0 = ''0''"
  by (simp add: py_str_def nat_str_digit digit_char_def)

text \<open>
  C10. The default GeoTIFF name is built from the floor division of the scale by 1000:
  \<open>make_default_fname scale_m\<close> is \<^verbatim>\<open>oisst_20200315_s{scale_m // 1000}k.tif\<close>, and the two
  export scripts build their names with the same tag. A positive scale below 1000 metres
  gives the tag \<^verbatim>\<open>s0k\<close>, and two scales with the same whole number of kilometres get the
  same names.
\<close>

theorem default_fname_floor_div:
  "make_default_fname scale_m = ''oisst_20200315_s'' @ py_str (scale_m div 1000) @ ''k.tif''
   \<and> export_oisst_name scale_m = ''oisst_20200315_s'' @ py_str (scale_m div 1000) @ ''k''
   \<and> export_hycom_name scale_m = ''hycom_temp0_20200315_s'' @ py_str (scale_m div 1000) @ ''k''
   \<and> task_fileNamePrefix (export_oisst_main scale_m) = export_oisst_name scale_m
   \<and> task_fileNamePrefix (export_hycom_main scale_m) = export_hycom_name scale_m
   \<and> (0 < scale_m \<and> scale_m < 1000 \<longrightarrow>
        scale_tag scale_m = ''s0k'' \<and> make_default_fname scale_m = ''oisst_20200315_s0k.tif''
        \<and> export_oisst_name scale_m = ''oisst_20200315_s0k''
        \<and> export_hycom_name scale_m = ''hycom_temp0_20200315_s0k'')
   \<and> (other div 1000 = scale_m div 1000 \<longrightarrow>
        make_default_fname other = make_default_fname scale_m
        \<and> export_oisst_name other = export_oisst_name scale_m
        \<and> export_hycom_name other = export_hycom_name scale_m)"
  by (simp add: make_default_fname_def scale_tag_def export_oisst_name_def export_hycom_name_def
      export_oisst_main_def export_hycom_main_def py_str_0)

theorem default_fname_floor_div_witness:
  "(0::int) < 999 \<and> (999::int) < 1000 \<and> (1::int) div 1000 = 999 div 1000 \<and> (1::int) \<noteq> 999
   \<and> make_default_fname 999 = ''oisst_20200315_s0k.tif''
   \<and> make_default_fname 1 = make_default_fname 999
   \<and> export_oisst_name 1 = export_oisst_name 999
   \<and> export_hycom_name 999 = ''hycom_temp0_20200315_s0k''"
  using default_fname_floor_div [of 999 1] by (simp add: py_str_0)


subsection \<open>The thumbnail shape\<close>

lemma thumb_scale_Float:
  "thumb_scale (Float s) = Float (if s < 1 / 100 then 1 / 100 else if 1 < s then 1 else s)"
  by (simp add: thumb_scale_def py_min_def py_max_def)

lemma thumb_scale_nonfinite:
  "thumb_scale NaN = NaN \<and> thumb_scale PosInf = Float 1 \<and> thumb_scale NegInf = Float (1 / 100)"
  by (simp add: thumb_scale_def py_min_def py_max_def)

lemma rounded_below_one:
  fixes fl :: "real \<Rightarrow> real"
  assumes "mono fl" "fl 0 = 0" "fl (7 / 8) = 7 / 8" "0 \<le> x" "x \<le> 7 / 8"
  shows "int_of_float (fl x) = 0"
proof -
  have "fl 0 \<le> fl x" using assms(1,4) by (rule monoD)
  moreover have "fl x \<le> fl (7 / 8)" using assms(1,5) by (rule monoD)
  ultimately have "0 \<le> fl x" "fl x < 1" using assms(2,3) by simp_all
  then show ?thesis by (simp add: int_of_float_def floor_eq_iff)
qed

text \<open>
  C4. A numeric scale is clamped into \<open>[0.01, 1]\<close>, but the shape is not always at least
  one row and one column: for the 4 x 4 raster and the default scale 0.2 (the double
  \<open>3602879701896397 / 2\<^sup>5\<^sup>4\<close>) both products are 0.8 and the shape is (0, 0); and the scale
  \<^verbatim>\<open>nan\<close> is not clamped, so that the conversion to an integer raises \<^verbatim>\<open>ValueError\<close>. The
  rounding \<open>fl\<close> is any monotone function that leaves the doubles 0 and 7/8 fixed.
\<close>

theorem thumb_shape_default_scale_empty:
  "mono fl \<and> fl 0 = 0 \<and> fl (7 / 8) = 7 / 8 \<longrightarrow>
     thumb_scale (Float s) = Float (if s < 1 / 100 then 1 / 100 else if 1 < s then 1 else s)
     \<and> thumb_scale (Float (3602879701896397 / 18014398509481984))
       = Float (3602879701896397 / 18014398509481984)
     \<and> thumb_shape fl 4 4 (Float (3602879701896397 / 18014398509481984)) = Inr (0, 0)
     \<and> thumb_shape fl height width NaN = Inl ValueError"
proof
  assume a: "mono fl \<and> fl 0 = 0 \<and> fl (7 / 8) = 7 / 8"
  have z: "int_of_float (fl (4 * (3602879701896397 / 18014398509481984))) = 0"
    using a by (intro rounded_below_one) simp_all
  show "thumb_scale (Float s) = Float (if s < 1 / 100 then 1 / 100 else if 1 < s then 1 else s)
     \<and> thumb_scale (Float (3602879701896397 / 18014398509481984))
       = Float (3602879701896397 / 18014398509481984)
     \<and> thumb_shape fl 4 4 (Float (3602879701896397 / 18014398509481984)) = Inr (0, 0)
     \<and> thumb_shape fl height width NaN = Inl ValueError"
    using z by (simp add: thumb_shape_def thumb_scale_Float thumb_scale_nonfinite thumb_dim_def
        bind_err_def)
qed

theorem thumb_shape_default_scale_empty_witness:
  "mono (\<lambda>x :: real. x)
   \<and> thumb_shape (\<lambda>x. x) 4 4 (Float (3602879701896397 / 18014398509481984)) = Inr (0, 0)
   \<and> thumb_shape (\<lambda>x. x) 4 4 NaN = Inl ValueError"
  using thumb_shape_default_scale_empty [of "\<lambda>x. x" "1 / 5" 4 4]
  by (simp add: mono_def)


subsection \<open>The two nodata rules\<close>

lemma thumb_is_nodata_iff: "thumb_is_nodata v nodata \<longleftrightarrow> nodata = Some v"
  by (cases nodata) (auto simp: thumb_is_nodata_def mask_thumb_def masked_equal_def)

lemma sample_is_nodata_iff:
  "sample_is_nodata v nodata \<longleftrightarrow>
     (\<exists>nd. nodata = Some nd \<and> \<bar>v - nd\<bar> \<le> 1 / 10 ^ 8 + (1 / 10 ^ 5) * \<bar>nd\<bar>)"
  by (cases nodata) (auto simp: sample_is_nodata_def np_isclose_def)

text \<open>
  C5 (as amended). The thumbnail path of the inspector masks a cell exactly when the
  dataset has a nodata value and the cell is equal to it; the point sampler treats a cell
  as missing exactly when the dataset has a nodata value \<open>nd\<close> and the cell is within
  \<open>1e-8 + 1e-5 * |nd|\<close> of it. Every cell the inspector masks is missing for the sampler,
  neither path treats any cell as missing when no nodata value is set, and the two
  disagree exactly on the cells that are within the tolerance of the nodata value and
  not equal to it.
\<close>

theorem nodata_rules_compared:
  "(thumb_is_nodata v nodata \<longleftrightarrow> nodata = Some v)
   \<and> (sample_is_nodata v nodata \<longleftrightarrow>
        (\<exists>nd. nodata = Some nd \<and> \<bar>v - nd\<bar> \<le> 1 / 10 ^ 8 + (1 / 10 ^ 5) * \<bar>nd\<bar>))
   \<and> (thumb_is_nodata v nodata \<longrightarrow> sample_is_nodata v nodata)
   \<and> (nodata = None \<longrightarrow> \<not> thumb_is_nodata v nodata \<and> \<not> sample_is_nodata v nodata)
   \<and> (sample_is_nodata v nodata \<noteq> thumb_is_nodata v nodata \<longleftrightarrow>
        (\<exists>nd. nodata = Some nd \<and> v \<noteq> nd \<and> \<bar>v - nd\<bar> \<le> 1 / 10 ^ 8 + (1 / 10 ^ 5) * \<bar>nd\<bar>))"
  unfolding thumb_is_nodata_iff sample_is_nodata_iff by auto

theorem nodata_rules_compared_witness:
  "thumb_is_nodata (- 9999) (Some (- 9999)) \<and> sample_is_nodata (- 9999) (Some (- 9999))
   \<and> \<not> thumb_is_nodata 7 None \<and> \<not> sample_is_nodata 7 None"
  using nodata_rules_compared [of "- 9999" "Some (- 9999)"] nodata_rules_compared [of 7 None]
  by simp

text \<open>
  C5 as stated asks the two paths to agree on every cell. With the sentinel -9999 the cell
  value -9999.01 is missing for the sampler and valid for the inspector.
\<close>

theorem nodata_rules_disagree_counterexample:
  "sample_is_nodata (- 999901 / 100) (Some (- 9999))
   \<and> \<not> thumb_is_nodata (- 999901 / 100) (Some (- 9999))"
  by (simp add: sample_is_nodata_def np_isclose_def thumb_is_nodata_def mask_thumb_def
      masked_equal_def)


subsection \<open>Sampling outside the grid\<close>

text \<open>
  C1. On the example raster the point (0.5, 0.5) lies above the grid and maps to row -1,
  column 0. \<open>tiff_sst_value\<close> passes the index to the array unchecked: row -1 counts from
  the end, and the value 13 of row 3 is returned, not \<open>nan\<close>. The point (0.5, -4.5) lies
  below the grid, maps to row 4, and the read raises \<^verbatim>\<open>IndexError\<close>. (\<open>ee_sst_value\<close>, the
  other source of the comparison, returns \<open>nan\<close> where the image has no value.)
\<close>

theorem sample_outside_grid_reads_or_raises:
  "ds_index raster_1_16 (1 / 2) (1 / 2) = (- 1, 0)
   \<and> tiff_sst_value fs_1_16 ''oisst_20200315_s20k.tif'' (1 / 2) (1 / 2) = Inr (Float 13)
   \<and> ds_index raster_1_16 (1 / 2) (- 9 / 2) = (4, 0)
   \<and> tiff_sst_value fs_1_16 ''oisst_20200315_s20k.tif'' (1 / 2) (- 9 / 2) = Inl IndexError"
  by (simp add: tiff_sst_value_def fs_1_16_def raster_1_16_def index_north_up_def
      getitem2_def norm_index_def grid_1_16_def sample_is_nodata_def np_isclose_def)


subsection \<open>Reading back a printed integer\<close>















subsection \<open>Exits of the command-line scripts\<close>














subsection \<open>The geotransform round trip\<close>




subsection \<open>The worked examples of the spec\<close>

lemma mask_1_16:
  "0 < tol \<Longrightarrow> tol < 10000 \<Longrightarrow>
     nodata_mask grid_1_16 (Some (- 9999)) tol = replicate 4 (replicate 4 False)"
  by (simp add: nodata_mask_def is_nodata_def grid_1_16_def numeral_eq_Suc)

lemma mask_sentinel:
  "0 < tol \<Longrightarrow> tol < 10000 \<Longrightarrow>
     nodata_mask grid_sentinel (Some (- 9999)) tol
       = [[True, False, False, False], [False, False, False, False],
          [False, False, False, False], [False, False, False, False]]"
  by (simp add: nodata_mask_def is_nodata_def grid_sentinel_def)

lemma reduce_1_16:
  "reduce grid_1_16 (replicate 4 (replicate 4 False))
     = \<lparr>st_min = Float 1, st_max = Float 16, st_mean = Float (17 / 2),
        st_std = Float (sqrt (85 / 4))\<rparr>"
  by (simp add: reduce_def cells_def grid_1_16_def accumulate_def acc_empty_def finish_def
      numeral_eq_Suc Let_def)

lemma sqrt_85_4: "\<bar>sqrt (85 / 4) - 4609 / 1000\<bar> < 1 / 1000"
proof -
  have "4609 / 1000 < sqrt (85 / 4)"
    by (rule real_less_rsqrt) (simp add: power2_eq_square)
  moreover have "sqrt (85 / 4) < 4610 / 1000"
    by (rule real_less_lsqrt) (simp_all add: power2_eq_square)
  ultimately show ?thesis by simp
qed

lemma resample_1_16:
  "resample grid_1_16 (replicate 4 (replicate 4 False)) (1 / 2)
     = [[Some (7 / 2), Some (11 / 2)], [Some (23 / 2), Some (27 / 2)]]"
  by (simp add: resample_def resample_to_def resample_shape_def clamp_scale_def
      grid_height_def grid_width_def grid_1_16_def block_bounds_def block_cells_def
      block_mean_def upt_conv_Cons Let_def)

lemma reduce_sentinel:
  "reduce grid_sentinel [[True, False, False, False], [False, False, False, False],
          [False, False, False, False], [False, False, False, False]]
     = \<lparr>st_min = Float 2, st_max = Float 16, st_mean = Float (9),
        st_std = Float (sqrt (56 / 3))\<rparr>"
  by (simp add: reduce_def cells_def grid_sentinel_def accumulate_def acc_empty_def finish_def
      Let_def)

text \<open>
  C8. The worked examples hold for every tolerance between 0 and 10000. On the 4 x 4 grid
  of 1 to 16 with sentinel -9999 no cell is masked; \<open>reduce\<close> gives minimum 1, maximum 16,
  mean 8.5 and the population standard deviation \<open>sqrt 21.25\<close>, which is within 0.001 of
  4.609; resampling at scale 0.5 gives the 2 x 2 grid [[3.5, 5.5], [11.5, 13.5]]. With
  the sentinel in row 0, column 0, fifteen cells are valid and the minimum is 2.
\<close>

theorem spec_worked_examples:
  "0 < tol \<and> tol < 10000 \<longrightarrow>
     nodata_mask grid_1_16 (Some (- 9999)) tol = replicate 4 (replicate 4 False)
     \<and> reduce grid_1_16 (nodata_mask grid_1_16 (Some (- 9999)) tol)
         = \<lparr>st_min = Float 1, st_max = Float 16, st_mean = Float (17 / 2),
            st_std = Float (sqrt (85 / 4))\<rparr>
     \<and> \<bar>sqrt (85 / 4) - 4609 / 1000\<bar> < 1 / 1000
     \<and> resample grid_1_16 (nodata_mask grid_1_16 (Some (- 9999)) tol) (1 / 2)
         = [[Some (7 / 2), Some (11 / 2)], [Some (23 / 2), Some (27 / 2)]]
     \<and> length (filter (\<lambda>c. \<not> snd c)
           (cells grid_sentinel (nodata_mask grid_sentinel (Some (- 9999)) tol))) = 15
     \<and> st_min (reduce grid_sentinel (nodata_mask grid_sentinel (Some (- 9999)) tol)) = Float 2"
proof
  assume t: "0 < tol \<and> tol < 10000"
  have m1: "nodata_mask grid_1_16 (Some (- 9999)) tol = replicate 4 (replicate 4 False)"
    using t by (simp add: mask_1_16)
  have m2: "nodata_mask grid_sentinel (Some (- 9999)) tol
       = [[True, False, False, False], [False, False, False, False],
          [False, False, False, False], [False, False, False, False]]"
    using t by (simp add: mask_sentinel)
  have n: "length (filter (\<lambda>c. \<not> snd c)
           (cells grid_sentinel [[True, False, False, False], [False, False, False, False],
          [False, False, False, False], [False, False, False, False]])) = 15"
    by (simp add: cells_def grid_sentinel_def)
  show "nodata_mask grid_1_16 (Some (- 9999)) tol = replicate 4 (replicate 4 False)
     \<and> reduce grid_1_16 (nodata_mask grid_1_16 (Some (- 9999)) tol)
         = \<lparr>st_min = Float 1, st_max = Float 16, st_mean = Float (17 / 2),
            st_std = Float (sqrt (85 / 4))\<rparr>
     \<and> \<bar>sqrt (85 / 4) - 4609 / 1000\<bar> < 1 / 1000
     \<and> resample grid_1_16 (nodata_mask grid_1_16 (Some (- 9999)) tol) (1 / 2)
         = [[Some (7 / 2), Some (11 / 2)], [Some (23 / 2), Some (27 / 2)]]
     \<and> length (filter (\<lambda>c. \<not> snd c)
           (cells grid_sentinel (nodata_mask grid_sentinel (Some (- 9999)) tol))) = 15
     \<and> st_min (reduce grid_sentinel (nodata_mask grid_sentinel (Some (- 9999)) tol)) = Float 2"
    unfolding m1 m2 using reduce_1_16 sqrt_85_4 resample_1_16 reduce_sentinel n by simp
qed

theorem spec_worked_examples_witness:
  "(0::real) < 1 / 1000000 \<and> (1::real) / 1000000 < 10000
   \<and> st_mean (reduce grid_1_16 (nodata_mask grid_1_16 (Some (- 9999)) (1 / 1000000)))
       = Float (17 / 2)
   \<and> resample grid_1_16 (nodata_mask grid_1_16 (Some (- 9999)) (1 / 1000000)) (1 / 2)
       = [[Some (7 / 2), Some (11 / 2)], [Some (23 / 2), Some (27 / 2)]]
   \<and> st_min (reduce grid_sentinel (nodata_mask grid_sentinel (Some (- 9999)) (1 / 1000000)))
       = Float 2"
  using spec_worked_examples [of "1 / 1000000"] by (simp add: reduce_1_16 resample_1_16)

end
